theory Spec2Isabelle
  imports Main
begin

section \<open>Langton's ant: the automaton of \<^verbatim>\<open>langtons_ant.py\<close>\<close>

text \<open>
  The class \<^verbatim>\<open>LangtonsAnt\<close> keeps five private fields: the grid (a list of rows of
  booleans), its height and width as measured by the constructor, the ant's position
  (a mutable \<^verbatim>\<open>Point\<close>) and its direction (a \<^verbatim>\<open>Direction\<close> named tuple). Python
  integers are unbounded, so they are \<open>int\<close> here. Every exception the methods can raise
  is a value of \<open>error\<close>.

  The grid is held by value: a list of rows, each row a list of its own. The constructor
  stores the caller's list without copying it, so this is the picture of a grid whose rows
  are separate list objects that nothing but the automaton writes to, as the module's own
  main block builds it.
\<close>

subsection \<open>Exceptions and list subscripts\<close>

datatype error = ValueError | IndexError | ZeroDivisionError

text \<open>
  \<^verbatim>\<open>xs[i]\<close>: an index from \<open>0\<close> to \<open>len - 1\<close> counts from the front, one from \<open>-len\<close> to
  \<open>-1\<close> from the back, anything else raises \<^verbatim>\<open>IndexError\<close>.
\<close>

definition list_getitem :: "'a list \<Rightarrow> int \<Rightarrow> error + 'a" where
  "list_getitem xs i =
     (if 0 \<le> i \<and> i < int (length xs) then Inr (xs ! nat i)
      else if i < 0 \<and> - int (length xs) \<le> i then Inr (xs ! nat (int (length xs) + i))
      else Inl IndexError)"

text \<open>\<^verbatim>\<open>xs[i] = v\<close>, with the same reading of the index; the list returned is the updated one.\<close>

definition list_setitem :: "'a list \<Rightarrow> int \<Rightarrow> 'a \<Rightarrow> error + 'a list" where
  "list_setitem xs i v =
     (if 0 \<le> i \<and> i < int (length xs) then Inr (xs[nat i := v])
      else if i < 0 \<and> - int (length xs) \<le> i then Inr (xs[nat (int (length xs) + i) := v])
      else Inl IndexError)"

subsection \<open>Points and directions\<close>

text \<open>\<^verbatim>\<open>@dataclass class Point: x: int; y: int\<close>\<close>

record Point =
  Point_x :: int
  Point_y :: int

text \<open>\<^verbatim>\<open>class Direction(NamedTuple): x: int; y: int\<close>\<close>

datatype Direction = Direction (Direction_x: int) (Direction_y: int)

definition UP :: Direction where
  "UP = Direction 0 (- 1)"

definition RIGHT :: Direction where
  "RIGHT = Direction 1 0"

definition DOWN :: Direction where
  "DOWN = Direction 0 1"

definition LEFT :: Direction where
  "LEFT = Direction (- 1) 0"

definition DIRECTION_CHOICES :: "Direction list" where
  "DIRECTION_CHOICES = [UP, RIGHT, DOWN, LEFT]"

text \<open>
  The two branches of \<^verbatim>\<open>next\<close> that replace the direction:
  \<^verbatim>\<open>Direction(self.__direction.y, -self.__direction.x)\<close> when the cell is on and
  \<^verbatim>\<open>Direction(-self.__direction.y, self.__direction.x)\<close> when it is off.
\<close>

definition turn_on_cell :: "Direction \<Rightarrow> Direction" where
  "turn_on_cell d = Direction (Direction_y d) (- Direction_x d)"

definition turn_off_cell :: "Direction \<Rightarrow> Direction" where
  "turn_off_cell d = Direction (- Direction_y d) (Direction_x d)"

subsection \<open>The automaton\<close>

record LangtonsAnt =
  height :: int
  width :: int
  state :: "bool list list"
  position :: Point
  direction :: Direction

text \<open>
  What a caller can pass as \<^verbatim>\<open>direction\<close>: nothing (\<^verbatim>\<open>None\<close>), a list of integers (the
  parameter's annotation), or a \<^verbatim>\<open>Direction\<close> such as the module's constants. The
  constructor tests \<^verbatim>\<open>direction in DIRECTION_CHOICES\<close>, which compares with \<^verbatim>\<open>==\<close>:
  \<^verbatim>\<open>None\<close> and a list are equal to no tuple, a \<^verbatim>\<open>Direction\<close> is equal to the choice
  with the same two components.
\<close>

datatype direction_arg =
  DirectionNone
  | DirectionList "int list"
  | DirectionTuple Direction

fun in_DIRECTION_CHOICES :: "direction_arg \<Rightarrow> bool" where
  "in_DIRECTION_CHOICES DirectionNone = False"
| "in_DIRECTION_CHOICES (DirectionList xs) = False"
| "in_DIRECTION_CHOICES (DirectionTuple d) = (d \<in> set DIRECTION_CHOICES)"

text \<open>
  \<^verbatim>\<open>random.choice(seq)\<close> returns \<^verbatim>\<open>seq[k]\<close> for an index \<open>k\<close> below \<^verbatim>\<open>len(seq)\<close> drawn
  from the generator; the draw is the parameter \<open>rnd\<close>.
\<close>

definition random_choice :: "nat \<Rightarrow> 'a list \<Rightarrow> 'a" where
  "random_choice rnd xs = xs ! (rnd mod length xs)"

text \<open>
  The position the constructor sets. \<^verbatim>\<open>if start_position:\<close> is false for \<^verbatim>\<open>None\<close> and
  for the empty list; then the centre \<^verbatim>\<open>Point(x=int(width / 2), y=int(height / 2))\<close> is
  taken, and \<^verbatim>\<open>int(n / 2)\<close> is \<open>n div 2\<close> for a list length \<open>n\<close>.
\<close>

definition initial_position :: "int \<Rightarrow> int \<Rightarrow> int list option \<Rightarrow> error + Point" where
  "initial_position w h start_position =
     (case start_position of
        None \<Rightarrow> Inr \<lparr>Point_x = w div 2, Point_y = h div 2\<rparr>
      | Some xs \<Rightarrow>
          if xs \<noteq> [] then
            if length xs \<noteq> 2 then Inl ValueError
            else Inr \<lparr>Point_x = (xs ! 0) mod w, Point_y = (xs ! 1) mod h\<rparr>
          else Inr \<lparr>Point_x = w div 2, Point_y = h div 2\<rparr>)"

definition initial_direction :: "direction_arg \<Rightarrow> nat \<Rightarrow> Direction" where
  "initial_direction arg rnd =
     (if in_DIRECTION_CHOICES arg
      then (case arg of DirectionTuple d \<Rightarrow> d | _ \<Rightarrow> random_choice rnd DIRECTION_CHOICES)
      else random_choice rnd DIRECTION_CHOICES)"

text \<open>
  \<^verbatim>\<open>LangtonsAnt.__init__\<close>. \<^verbatim>\<open>initial_state[0]\<close> is read after the emptiness check, so
  \<open>hd\<close> is applied to a non-empty list only.
\<close>

definition LangtonsAnt_init ::
  "bool list list \<Rightarrow> int list option \<Rightarrow> direction_arg \<Rightarrow> nat \<Rightarrow> error + LangtonsAnt" where
  "LangtonsAnt_init initial_state start_position arg rnd =
     (if initial_state = [] then Inl ValueError
      else
        let h = int (length initial_state);
            w = int (length (hd initial_state))
        in
          if w = 0 then Inl ValueError
          else
            let errors_in_initial_state = map (\<lambda>row. w \<noteq> int (length row)) initial_state
            in
              if list_ex (\<lambda>e. e) errors_in_initial_state then Inl ValueError
              else
                (case initial_position w h start_position of
                   Inl e \<Rightarrow> Inl e
                 | Inr p \<Rightarrow>
                     Inr \<lparr>height = h, width = w, state = initial_state, position = p,
                          direction = initial_direction arg rnd\<rparr>))"

text \<open>The property \<^verbatim>\<open>state\<close>: the grid itself.\<close>

definition LangtonsAnt_state :: "LangtonsAnt \<Rightarrow> bool list list" where
  "LangtonsAnt_state s = state s"

text \<open>\<^verbatim>\<open>self.__state[x][y]\<close>: the row first, then the cell.\<close>

definition cell_at :: "bool list list \<Rightarrow> int \<Rightarrow> int \<Rightarrow> error + bool" where
  "cell_at g x y =
     (case list_getitem g x of
        Inl e \<Rightarrow> Inl e
      | Inr row \<Rightarrow> list_getitem row y)"

text \<open>
  \<^verbatim>\<open>self.__state[x][y] = not self.__state[x][y]\<close>: the right-hand side is read, then the
  row \<^verbatim>\<open>self.__state[x]\<close> is fetched and its item \<open>y\<close> is stored. The row is changed in
  place, which the grid shows as a changed row \<open>x\<close>.
\<close>

definition flip_cell :: "bool list list \<Rightarrow> int \<Rightarrow> int \<Rightarrow> error + bool list list" where
  "flip_cell g x y =
     (case cell_at g x y of
        Inl e \<Rightarrow> Inl e
      | Inr v \<Rightarrow>
          (case list_getitem g x of
             Inl e \<Rightarrow> Inl e
           | Inr row \<Rightarrow>
               (case list_setitem row y (\<not> v) of
                  Inl e \<Rightarrow> Inl e
                | Inr row' \<Rightarrow> list_setitem g x row')))"

text \<open>
  The property \<^verbatim>\<open>position_and_direction\<close>: the list of the position, the direction's
  name (the empty string when it is none of the four) and the cell under the ant.
\<close>

definition LangtonsAnt_position_and_direction ::
  "LangtonsAnt \<Rightarrow> error + (Point \<times> string \<times> bool)" where
  "LangtonsAnt_position_and_direction s =
     (let direction_text =
            (if direction s = UP then ''UP''
             else if direction s = RIGHT then ''RIGHT''
             else if direction s = DOWN then ''DOWN''
             else if direction s = LEFT then ''LEFT''
             else '''')
      in
        case cell_at (state s) (Point_x (position s)) (Point_y (position s)) of
          Inl e \<Rightarrow> Inl e
        | Inr v \<Rightarrow> Inr (position s, direction_text, v))"

text \<open>
  \<^verbatim>\<open>LangtonsAnt.next\<close>. The method returns nothing and changes the object, so the
  model returns the outcome of the call (\<open>Inr ()\<close>, or \<open>Inl\<close> the exception raised) together
  with the object as the call leaves it: an exception keeps what was assigned before it.
  \<^verbatim>\<open>%\<close> raises \<^verbatim>\<open>ZeroDivisionError\<close> on a zero modulus.
\<close>

definition LangtonsAnt_next :: "LangtonsAnt \<Rightarrow> (error + unit) \<times> LangtonsAnt" where
  "LangtonsAnt_next s =
     (let x = Point_x (position s);
          y = Point_y (position s)
      in
        case cell_at (state s) x y of
          Inl e \<Rightarrow> (Inl e, s)
        | Inr v \<Rightarrow>
            let s1 = s\<lparr>direction :=
                        (if v then turn_on_cell (direction s) else turn_off_cell (direction s))\<rparr>
            in
              (case flip_cell (state s1) x y of
                 Inl e \<Rightarrow> (Inl e, s1)
               | Inr g \<Rightarrow>
                   let s2 = s1\<lparr>state := g\<rparr>
                   in
                     if width s2 = 0 then (Inl ZeroDivisionError, s2)
                     else
                       let s3 = s2\<lparr>position := (position s2)
                                  \<lparr>Point_x := (Point_x (position s2) + Direction_x (direction s2))
                                                mod width s2\<rparr>\<rparr>
                       in
                         if height s3 = 0 then (Inl ZeroDivisionError, s3)
                         else
                           (Inr (),
                            s3\<lparr>position := (position s3)
                                  \<lparr>Point_y := (Point_y (position s3) + Direction_y (direction s3))
                                                mod height s3\<rparr>\<rparr>)))"

text \<open>
  The object after \<open>n\<close> calls of \<^verbatim>\<open>next\<close>, whatever each call's outcome was.
\<close>

fun after_calls :: "nat \<Rightarrow> LangtonsAnt \<Rightarrow> LangtonsAnt" where
  "after_calls 0 s = s"
| "after_calls (Suc n) s = after_calls n (snd (LangtonsAnt_next s))"

text \<open>
  What the constructor establishes: the measured height and width are those of the grid,
  both positive, every row is as long as the width, the position is within
  \<open>0 \<le> x < width\<close> and \<open>0 \<le> y < height\<close>, and the direction is one of the four.
\<close>

definition ant_inv :: "LangtonsAnt \<Rightarrow> bool" where
  "ant_inv s =
     (height s = int (length (state s)) \<and> 0 < height s \<and> 0 < width s \<and>
      list_all (\<lambda>row. int (length row) = width s) (state s) \<and>
      0 \<le> Point_x (position s) \<and> Point_x (position s) < width s \<and>
      0 \<le> Point_y (position s) \<and> Point_y (position s) < height s \<and>
      direction s \<in> set DIRECTION_CHOICES)"

section \<open>The turn maps\<close>

lemma turn_on_off [simp]: "turn_on_cell (turn_off_cell d) = d"
  by (cases d) (simp add: turn_on_cell_def turn_off_cell_def)

lemma turn_off_on [simp]: "turn_off_cell (turn_on_cell d) = d"
  by (cases d) (simp add: turn_on_cell_def turn_off_cell_def)

lemma turn_on_choices: "turn_on_cell ` set DIRECTION_CHOICES = set DIRECTION_CHOICES"
  by (auto simp: DIRECTION_CHOICES_def UP_def RIGHT_def DOWN_def LEFT_def turn_on_cell_def)

lemma turn_off_choices: "turn_off_cell ` set DIRECTION_CHOICES = set DIRECTION_CHOICES"
  by (auto simp: DIRECTION_CHOICES_def UP_def RIGHT_def DOWN_def LEFT_def turn_off_cell_def)

section \<open>Shape, position and direction are kept\<close>

lemma list_setitem_length: "list_setitem xs i v = Inr ys \<Longrightarrow> length ys = length xs"
  by (auto simp: list_setitem_def split: if_splits)

lemma list_getitem_mem: "list_getitem xs i = Inr v \<Longrightarrow> v \<in> set xs"
  by (auto simp: list_getitem_def split: if_splits)

lemma list_setitem_map_length:
  assumes "list_setitem g x row' = Inr g'" and "list_getitem g x = Inr row"
    and "length row' = length row"
  shows "map length g' = map length g"
  using assms
  by (auto simp: list_setitem_def list_getitem_def map_update list_update_same_conv split: if_splits)

lemma flip_cell_shape: "flip_cell g x y = Inr g' \<Longrightarrow> map length g' = map length g"
  by (auto simp: flip_cell_def split: sum.splits
      dest: list_setitem_length intro: list_setitem_map_length)

lemma next_width [simp]: "width (snd (LangtonsAnt_next s)) = width s"
  by (simp add: LangtonsAnt_next_def Let_def split: sum.splits)

lemma next_height [simp]: "height (snd (LangtonsAnt_next s)) = height s"
  by (simp add: LangtonsAnt_next_def Let_def split: sum.splits)

lemma next_shape: "map length (state (snd (LangtonsAnt_next s))) = map length (state s)"
  by (auto simp: LangtonsAnt_next_def Let_def split: sum.splits dest: flip_cell_shape)

lemma next_direction:
  "direction s \<in> set DIRECTION_CHOICES \<Longrightarrow> direction (snd (LangtonsAnt_next s)) \<in> set DIRECTION_CHOICES"
  using turn_on_choices turn_off_choices
  by (auto simp: LangtonsAnt_next_def Let_def split: sum.splits)

lemma next_position:
  assumes "0 < width s" "0 < height s"
    "0 \<le> Point_x (position s)" "Point_x (position s) < width s"
    "0 \<le> Point_y (position s)" "Point_y (position s) < height s"
  shows "0 \<le> Point_x (position (snd (LangtonsAnt_next s))) \<and>
         Point_x (position (snd (LangtonsAnt_next s))) < width s \<and>
         0 \<le> Point_y (position (snd (LangtonsAnt_next s))) \<and>
         Point_y (position (snd (LangtonsAnt_next s))) < height s"
  using assms
  by (auto simp: LangtonsAnt_next_def Let_def split: sum.splits)


lemma list_all_length_map:
  "list_all (\<lambda>row. int (length row) = w) g = list_all (\<lambda>n. int n = w) (map length g)"
  by (simp add: list_all_iff)

lemma next_inv: "ant_inv s \<Longrightarrow> ant_inv (snd (LangtonsAnt_next s))"
proof -
  assume inv: "ant_inv s"
  let ?t = "snd (LangtonsAnt_next s)"
  from inv have hgt: "height s = int (length (state s))"
    and hpos: "0 < height s" and wpos: "0 < width s"
    and rows: "list_all (\<lambda>row. int (length row) = width s) (state s)"
    and px: "0 \<le> Point_x (position s)" "Point_x (position s) < width s"
    and py: "0 \<le> Point_y (position s)" "Point_y (position s) < height s"
    and dir: "direction s \<in> set DIRECTION_CHOICES"
    unfolding ant_inv_def by blast+
  have shape: "map length (state ?t) = map length (state s)"
    by (rule next_shape)
  then have "length (state ?t) = length (state s)"
    by (rule map_eq_imp_length_eq)
  with hgt have 1: "height ?t = int (length (state ?t))"
    by simp
  have 2: "list_all (\<lambda>row. int (length row) = width ?t) (state ?t)"
    using rows shape by (simp add: list_all_length_map)
  have 3: "0 \<le> Point_x (position ?t) \<and> Point_x (position ?t) < width ?t \<and>
           0 \<le> Point_y (position ?t) \<and> Point_y (position ?t) < height ?t"
    using next_position [OF wpos hpos px py] by simp
  have 4: "direction ?t \<in> set DIRECTION_CHOICES"
    using dir by (rule next_direction)
  have 5: "0 < height ?t" "0 < width ?t"
    using hpos wpos by simp_all
  show ?thesis
    unfolding ant_inv_def using 1 2 3 4 5 by blast
qed

lemma after_calls_inv: "ant_inv s \<Longrightarrow> ant_inv (after_calls n s)"
  by (induction n arbitrary: s) (simp_all add: next_inv)

lemma after_calls_width [simp]: "width (after_calls n s) = width s"
  by (induction n arbitrary: s) simp_all

lemma after_calls_height [simp]: "height (after_calls n s) = height s"
  by (induction n arbitrary: s) simp_all

lemma after_calls_shape: "map length (state (after_calls n s)) = map length (state s)"
  by (induction n arbitrary: s) (simp_all add: next_shape)

lemma random_choice_DIRECTION_CHOICES:
  "random_choice rnd DIRECTION_CHOICES \<in> set DIRECTION_CHOICES"
  unfolding random_choice_def by (rule nth_mem) (simp add: DIRECTION_CHOICES_def)

lemma initial_direction_choices: "initial_direction arg rnd \<in> set DIRECTION_CHOICES"
  by (cases arg) (simp_all add: initial_direction_def random_choice_DIRECTION_CHOICES)

lemma initial_position_bounds:
  assumes "initial_position w h sp = Inr p" and "0 < w" and "0 < h"
  shows "0 \<le> Point_x p \<and> Point_x p < w \<and> 0 \<le> Point_y p \<and> Point_y p < h"
  using assms by (auto simp: initial_position_def split: option.splits if_splits)

lemma init_fields:
  assumes "LangtonsAnt_init g sp arg rnd = Inr a"
  shows "state a = g \<and> height a = int (length g) \<and> width a = int (length (hd g)) \<and>
         g \<noteq> [] \<and> hd g \<noteq> [] \<and>
         direction a = initial_direction arg rnd \<and>
         initial_position (int (length (hd g))) (int (length g)) sp = Inr (position a)"
  using assms
  by (auto simp: LangtonsAnt_init_def Let_def split: if_splits sum.splits)

lemma init_rows:
  assumes "LangtonsAnt_init g sp arg rnd = Inr a"
  shows "list_all (\<lambda>row. int (length row) = int (length (hd g))) g"
  using assms
  by (auto simp: LangtonsAnt_init_def Let_def list_all_iff list_ex_iff split: if_splits sum.splits)

lemma init_inv:
  assumes "LangtonsAnt_init g sp arg rnd = Inr a"
  shows "ant_inv a"
proof -
  note f = init_fields [OF assms]
  have w: "0 < int (length (hd g))" and h: "0 < int (length g)"
    using f by simp_all
  have "0 \<le> Point_x (position a) \<and> Point_x (position a) < int (length (hd g)) \<and>
        0 \<le> Point_y (position a) \<and> Point_y (position a) < int (length g)"
    using f w h by (intro initial_position_bounds [where sp = sp]) simp_all
  then show ?thesis
    using f init_rows [OF assms] initial_direction_choices [of arg rnd]
    by (simp add: ant_inv_def)
qed

section \<open>A step from a cell of the grid\<close>

lemma list_getitem_nonneg:
  "0 \<le> i \<Longrightarrow> list_getitem xs i = (if nat i < length xs then Inr (xs ! nat i) else Inl IndexError)"
  by (auto simp: list_getitem_def)

lemma list_setitem_nonneg:
  "0 \<le> i \<Longrightarrow>
   list_setitem xs i v = (if nat i < length xs then Inr (xs[nat i := v]) else Inl IndexError)"
  by (auto simp: list_setitem_def)

lemma cell_at_nonneg:
  assumes "0 \<le> x" and "0 \<le> y"
  shows "cell_at g x y = Inr v \<longleftrightarrow>
         nat x < length g \<and> nat y < length (g ! nat x) \<and> v = g ! nat x ! nat y"
  using assms by (auto simp: cell_at_def list_getitem_nonneg split: if_splits)

lemma flip_cell_nonneg:
  assumes "0 \<le> x" and "0 \<le> y" and "cell_at g x y = Inr v"
  shows "flip_cell g x y = Inr (g[nat x := (g ! nat x)[nat y := \<not> v]])"
proof -
  from assms have "nat x < length g" "nat y < length (g ! nat x)" "v = g ! nat x ! nat y"
    by (simp_all add: cell_at_nonneg)
  with assms show ?thesis
    by (simp add: flip_cell_def list_getitem_nonneg list_setitem_nonneg)
qed

lemma next_on_cell:
  assumes cell: "cell_at (state s) (Point_x (position s)) (Point_y (position s)) = Inr v"
    and nonneg: "0 \<le> Point_x (position s)" "0 \<le> Point_y (position s)"
    and dims: "width s \<noteq> 0" "height s \<noteq> 0"
  shows "LangtonsAnt_next s =
         (Inr (),
          s\<lparr>direction := (if v then turn_on_cell (direction s) else turn_off_cell (direction s)),
            state := (state s)[nat (Point_x (position s)) :=
                        (state s ! nat (Point_x (position s)))[nat (Point_y (position s)) := \<not> v]],
            position :=
              \<lparr>Point_x = (Point_x (position s) +
                          Direction_x (if v then turn_on_cell (direction s)
                                       else turn_off_cell (direction s))) mod width s,
               Point_y = (Point_y (position s) +
                          Direction_y (if v then turn_on_cell (direction s)
                                       else turn_off_cell (direction s))) mod height s\<rparr>\<rparr>)"
  using dims
  by (simp add: LangtonsAnt_next_def Let_def cell flip_cell_nonneg [OF nonneg cell])

lemma next_raises_unchanged:
  "cell_at (state s) (Point_x (position s)) (Point_y (position s)) = Inl e \<Longrightarrow>
   LangtonsAnt_next s = (Inl e, s)"
  by (simp add: LangtonsAnt_next_def Let_def)

lemma square_cell:
  assumes "ant_inv s" and "height s = width s"
  shows "cell_at (state s) (Point_x (position s)) (Point_y (position s)) =
         Inr (state s ! nat (Point_x (position s)) ! nat (Point_y (position s)))"
proof -
  let ?x = "Point_x (position s)" and ?y = "Point_y (position s)"
  from assms have x: "0 \<le> ?x" "nat ?x < length (state s)"
    and y: "0 \<le> ?y" "?y < width s"
    and rows: "list_all (\<lambda>row. int (length row) = width s) (state s)"
    unfolding ant_inv_def by auto
  from rows x(2) have "int (length (state s ! nat ?x)) = width s"
    by (simp add: list_all_length)
  with y have "nat ?y < length (state s ! nat ?x)"
    by simp
  with x y show ?thesis
    by (simp add: cell_at_nonneg)
qed

lemma direction_text_named:
  assumes "direction s \<in> set DIRECTION_CHOICES"
    and "LangtonsAnt_position_and_direction s = Inr (p, t, v)"
  shows "t \<in> {''UP'', ''RIGHT'', ''DOWN'', ''LEFT''}"
  using assms
  by (auto simp: LangtonsAnt_position_and_direction_def DIRECTION_CHOICES_def
      split: sum.splits if_splits)

lemma square_never_fails:
  assumes "ant_inv s" and "height s = width s"
  shows "fst (LangtonsAnt_next s) = Inr () \<and>
         (\<exists>t. t \<in> {''UP'', ''RIGHT'', ''DOWN'', ''LEFT''} \<and>
              LangtonsAnt_position_and_direction s =
              Inr (position s, t,
                   state s ! nat (Point_x (position s)) ! nat (Point_y (position s))))"
proof -
  note cell = square_cell [OF assms]
  from assms(1) have nonneg: "0 \<le> Point_x (position s)" "0 \<le> Point_y (position s)"
    and dims: "width s \<noteq> 0" "height s \<noteq> 0"
    and dir: "direction s \<in> set DIRECTION_CHOICES"
    unfolding ant_inv_def by auto
  have "fst (LangtonsAnt_next s) = Inr ()"
    by (simp add: next_on_cell [OF cell nonneg dims])
  moreover obtain t where t: "LangtonsAnt_position_and_direction s =
      Inr (position s, t, state s ! nat (Point_x (position s)) ! nat (Point_y (position s)))"
    by (simp add: LangtonsAnt_position_and_direction_def cell)
  moreover have "t \<in> {''UP'', ''RIGHT'', ''DOWN'', ''LEFT''}"
    using dir t by (rule direction_text_named)
  ultimately show ?thesis
    by blast
qed

lemma next_frame:
  assumes cell: "cell_at (state s) (Point_x (position s)) (Point_y (position s)) = Inr v"
    and nonneg: "0 \<le> Point_x (position s)" "0 \<le> Point_y (position s)"
    and dims: "width s \<noteq> 0" "height s \<noteq> 0"
    and other: "i \<noteq> nat (Point_x (position s)) \<or> j \<noteq> nat (Point_y (position s))"
  shows "state (snd (LangtonsAnt_next s)) ! nat (Point_x (position s)) ! nat (Point_y (position s)) = (\<not> v) \<and>
         state (snd (LangtonsAnt_next s)) ! i ! j = state s ! i ! j \<and>
         width (snd (LangtonsAnt_next s)) = width s \<and>
         height (snd (LangtonsAnt_next s)) = height s"
proof -
  from nonneg cell have "nat (Point_x (position s)) < length (state s)"
    "nat (Point_y (position s)) < length (state s ! nat (Point_x (position s)))"
    by (simp_all add: cell_at_nonneg)
  with other show ?thesis
    by (auto simp: next_on_cell [OF cell nonneg dims] nth_list_update)
qed

section \<open>The constructor\<close>

lemma init_isl:
  "isl (LangtonsAnt_init g sp arg rnd) =
     (g = [] \<or> hd g = [] \<or> list_ex (\<lambda>row. length (hd g) \<noteq> length row) g \<or>
      isl (initial_position (int (length (hd g))) (int (length g)) sp))"
  by (simp add: LangtonsAnt_init_def Let_def list_ex_iff split: sum.splits)

lemma initial_position_isl:
  "isl (initial_position w h sp) =
     (case sp of None \<Rightarrow> False | Some xs \<Rightarrow> xs \<noteq> [] \<and> length xs \<noteq> 2)"
  by (simp add: initial_position_def split: option.splits)

lemma init_error: "LangtonsAnt_init g sp arg rnd = Inl e \<Longrightarrow> e = ValueError"
  by (auto simp: LangtonsAnt_init_def initial_position_def Let_def
      split: if_splits sum.splits option.splits)

lemma initial_direction_fixed:
  "in_DIRECTION_CHOICES arg \<Longrightarrow> initial_direction arg rnd1 = initial_direction arg rnd2"
  by (cases arg) (simp_all add: initial_direction_def)

lemma init_fixed_direction:
  "in_DIRECTION_CHOICES arg \<Longrightarrow>
   LangtonsAnt_init g sp arg rnd1 = LangtonsAnt_init g sp arg rnd2"
  unfolding LangtonsAnt_init_def
  by (simp only: initial_direction_fixed [of arg rnd1 rnd2])

lemmas eval_defs = LangtonsAnt_init_def initial_position_def initial_direction_def
  random_choice_def DIRECTION_CHOICES_def UP_def RIGHT_def DOWN_def LEFT_def
  LangtonsAnt_next_def cell_at_def flip_cell_def list_getitem_def list_setitem_def
  turn_on_cell_def turn_off_cell_def LangtonsAnt_position_and_direction_def
  LangtonsAnt_state_def Let_def

section \<open>The claims\<close>

text \<open>
  Claim C1: for every validly constructed automaton, one call of \<^verbatim>\<open>next\<close> reads the cell
  under the ant, turns to \<open>(oldY, -oldX)\<close> on an on cell and to \<open>(-oldY, oldX)\<close> on an off
  cell, flips the cell and advances the position modulo the width and the height.

  The code does so whenever the ant's position indexes a cell of the grid (lemma
  \<open>next_on_cell\<close>), and it always does on a square grid (lemma \<open>square_cell\<close>). The
  position's \<open>x\<close> is kept below the width, the length of a row, but it is used as the
  index of the row, and \<open>y\<close>, kept below the number of rows, as the index within the row.
  \<^verbatim>\<open>LangtonsAnt([[False, False]], [1, 0], UP)\<close> is constructed without error, one row of
  two cells with the ant at \<open>x = 1\<close>; its \<^verbatim>\<open>next\<close> raises \<^verbatim>\<open>IndexError\<close> at the read of
  row \<open>1\<close> and performs no transition: direction, grid and position stay as they were.
\<close>

theorem C1_non_square_no_transition:
  "LangtonsAnt_init [[False, False]] (Some [1, 0]) (DirectionTuple UP) rnd =
   Inr \<lparr>height = 1, width = 2, state = [[False, False]],
        position = \<lparr>Point_x = 1, Point_y = 0\<rparr>, direction = UP\<rparr> \<and>
   LangtonsAnt_next
     \<lparr>height = 1, width = 2, state = [[False, False]],
      position = \<lparr>Point_x = 1, Point_y = 0\<rparr>, direction = UP\<rparr> =
   (Inl IndexError,
    \<lparr>height = 1, width = 2, state = [[False, False]],
     position = \<lparr>Point_x = 1, Point_y = 0\<rparr>, direction = UP\<rparr>)"
  by (simp add: eval_defs)

text \<open>
  Claim C2: for every validly constructed automaton, non-square grids included,
  \<^verbatim>\<open>next\<close> never fails and \<^verbatim>\<open>position_and_direction\<close> never fails and returns the
  position, the direction's name and the cell under the ant.

  On a square grid both hold (lemma \<open>square_never_fails\<close>). \<^verbatim>\<open>LangtonsAnt([[False, False]])\<close>,
  one row of two cells, is constructed without error for every direction argument and
  every draw, with the ant at the centre \<open>(1, 0)\<close>; both \<^verbatim>\<open>next\<close> and
  \<^verbatim>\<open>position_and_direction\<close> then raise \<^verbatim>\<open>IndexError\<close>, because row \<open>1\<close> does not exist.
\<close>

theorem C2_non_square_raises:
  "LangtonsAnt_init [[False, False]] None arg rnd =
   Inr \<lparr>height = 1, width = 2, state = [[False, False]],
        position = \<lparr>Point_x = 1, Point_y = 0\<rparr>, direction = initial_direction arg rnd\<rparr> \<and>
   fst (LangtonsAnt_next
     \<lparr>height = 1, width = 2, state = [[False, False]],
      position = \<lparr>Point_x = 1, Point_y = 0\<rparr>, direction = initial_direction arg rnd\<rparr>) =
   Inl IndexError \<and>
   LangtonsAnt_position_and_direction
     \<lparr>height = 1, width = 2, state = [[False, False]],
      position = \<lparr>Point_x = 1, Point_y = 0\<rparr>, direction = initial_direction arg rnd\<rparr> =
   Inl IndexError"
  by (simp add: LangtonsAnt_init_def initial_position_def 
  LangtonsAnt_next_def cell_at_def flip_cell_def list_getitem_def list_setitem_def
   LangtonsAnt_position_and_direction_def Let_def)

text \<open>
  Claim C3: on the 3 by 3 all-off grid with the ant constructed at \<open>(0, 0)\<close> heading
  \<^verbatim>\<open>UP\<close>, one step flips cell \<open>(0, 0)\<close> to on, turns the ant to \<^verbatim>\<open>LEFT\<close> and leaves it at
  \<open>(2, 0)\<close>.

  The code's turn on an off cell is \<open>(-oldY, oldX)\<close>, which takes \<^verbatim>\<open>UP\<close> \<open>= (0, -1)\<close> to
  \<open>(1, 0)\<close>, that is \<^verbatim>\<open>RIGHT\<close>: after the step the direction is not \<^verbatim>\<open>LEFT\<close> and the
  position is not \<open>(2, 0)\<close>.
\<close>

theorem C3_counterexample:
  "LangtonsAnt_init [[False, False, False], [False, False, False], [False, False, False]]
     (Some [0, 0]) (DirectionTuple UP) 0 =
   Inr \<lparr>height = 3, width = 3,
        state = [[False, False, False], [False, False, False], [False, False, False]],
        position = \<lparr>Point_x = 0, Point_y = 0\<rparr>, direction = UP\<rparr> \<and>
   direction (snd (LangtonsAnt_next
     \<lparr>height = 3, width = 3,
      state = [[False, False, False], [False, False, False], [False, False, False]],
      position = \<lparr>Point_x = 0, Point_y = 0\<rparr>, direction = UP\<rparr>)) \<noteq> LEFT \<and>
   position (snd (LangtonsAnt_next
     \<lparr>height = 3, width = 3,
      state = [[False, False, False], [False, False, False], [False, False, False]],
      position = \<lparr>Point_x = 0, Point_y = 0\<rparr>, direction = UP\<rparr>)) \<noteq>
   \<lparr>Point_x = 2, Point_y = 0\<rparr>"
  by (simp add: eval_defs)

text \<open>
  Claim C3 as the code has it: from \<open>(0, 0)\<close> heading \<^verbatim>\<open>UP\<close> on the 3 by 3 all-off grid,
  one step flips cell \<open>(0, 0)\<close> to on, turns the ant to \<^verbatim>\<open>RIGHT\<close> and leaves it at
  \<open>(1, 0)\<close>, with no wrap. The turn to \<^verbatim>\<open>LEFT\<close> and the wrap \<open>x = (0 - 1) mod 3 = 2\<close> to the
  position \<open>(2, 0)\<close> are what one step does from \<open>(0, 0)\<close> heading \<^verbatim>\<open>DOWN\<close>.
\<close>

theorem C3_first_step:
  "LangtonsAnt_init [[False, False, False], [False, False, False], [False, False, False]]
     (Some [0, 0]) (DirectionTuple UP) rnd =
   Inr \<lparr>height = 3, width = 3,
        state = [[False, False, False], [False, False, False], [False, False, False]],
        position = \<lparr>Point_x = 0, Point_y = 0\<rparr>, direction = UP\<rparr> \<and>
   LangtonsAnt_next
     \<lparr>height = 3, width = 3,
      state = [[False, False, False], [False, False, False], [False, False, False]],
      position = \<lparr>Point_x = 0, Point_y = 0\<rparr>, direction = UP\<rparr> =
   (Inr (),
    \<lparr>height = 3, width = 3,
     state = [[True, False, False], [False, False, False], [False, False, False]],
     position = \<lparr>Point_x = 1, Point_y = 0\<rparr>, direction = RIGHT\<rparr>) \<and>
   LangtonsAnt_init [[False, False, False], [False, False, False], [False, False, False]]
     (Some [0, 0]) (DirectionTuple DOWN) rnd =
   Inr \<lparr>height = 3, width = 3,
        state = [[False, False, False], [False, False, False], [False, False, False]],
        position = \<lparr>Point_x = 0, Point_y = 0\<rparr>, direction = DOWN\<rparr> \<and>
   LangtonsAnt_next
     \<lparr>height = 3, width = 3,
      state = [[False, False, False], [False, False, False], [False, False, False]],
      position = \<lparr>Point_x = 0, Point_y = 0\<rparr>, direction = DOWN\<rparr> =
   (Inr (),
    \<lparr>height = 3, width = 3,
     state = [[True, False, False], [False, False, False], [False, False, False]],
     position = \<lparr>Point_x = 2, Point_y = 0\<rparr>, direction = LEFT\<rparr>)"
  by (simp add: eval_defs)

text \<open>
  Claim C4: for every validly constructed automaton and every number of calls of
  \<^verbatim>\<open>next\<close>, the position satisfies \<open>0 \<le> x < W\<close> and \<open>0 \<le> y < H\<close>, where \<open>W\<close> is the length
  of the first row and \<open>H\<close> the number of rows of the grid given to the constructor. With
  \<open>n = 0\<close> this is the position right after construction, for any integer start position.
\<close>

theorem C4_position_in_bounds:
  assumes "LangtonsAnt_init g sp arg rnd = Inr a"
  shows "0 \<le> Point_x (position (after_calls n a)) \<and>
         Point_x (position (after_calls n a)) < int (length (hd g)) \<and>
         0 \<le> Point_y (position (after_calls n a)) \<and>
         Point_y (position (after_calls n a)) < int (length g)"
proof -
  have "ant_inv (after_calls n a)"
    using assms by (intro after_calls_inv init_inv)
  moreover have "width (after_calls n a) = int (length (hd g))"
    "height (after_calls n a) = int (length g)"
    using init_fields [OF assms] by simp_all
  ultimately show ?thesis
    unfolding ant_inv_def by simp
qed

text \<open>
  Claim C4 on the 3 by 3 all-off grid with the start position \<open>[-3, 6]\<close>, which the
  constructor reduces to \<open>(0, 0)\<close>, heading \<^verbatim>\<open>DOWN\<close>. Each of the three calls returns and
  wraps: to \<open>x = (0 - 1) mod 3 = 2\<close>, then to \<open>y = (0 - 1) mod 3 = 2\<close>, then to
  \<open>x = (2 + 1) mod 3 = 0\<close>.
\<close>

theorem C4_witness:
  "LangtonsAnt_init [[False, False, False], [False, False, False], [False, False, False]]
     (Some [- 3, 6]) (DirectionTuple DOWN) 0 =
   Inr \<lparr>height = 3, width = 3,
      state = [[False, False, False], [False, False, False], [False, False, False]],
      position = \<lparr>Point_x = 0, Point_y = 0\<rparr>, direction = DOWN\<rparr> \<and>
   after_calls 3
     \<lparr>height = 3, width = 3,
      state = [[False, False, False], [False, False, False], [False, False, False]],
      position = \<lparr>Point_x = 0, Point_y = 0\<rparr>, direction = DOWN\<rparr> =
   \<lparr>height = 3, width = 3,
      state = [[True, False, False], [False, False, False], [True, False, True]],
      position = \<lparr>Point_x = 0, Point_y = 2\<rparr>, direction = RIGHT\<rparr> \<and>
   0 \<le> Point_x (position (after_calls 3
     \<lparr>height = 3, width = 3,
      state = [[False, False, False], [False, False, False], [False, False, False]],
      position = \<lparr>Point_x = 0, Point_y = 0\<rparr>, direction = DOWN\<rparr>)) \<and>
   Point_x (position (after_calls 3
     \<lparr>height = 3, width = 3,
      state = [[False, False, False], [False, False, False], [False, False, False]],
      position = \<lparr>Point_x = 0, Point_y = 0\<rparr>, direction = DOWN\<rparr>)) < 3 \<and>
   0 \<le> Point_y (position (after_calls 3
     \<lparr>height = 3, width = 3,
      state = [[False, False, False], [False, False, False], [False, False, False]],
      position = \<lparr>Point_x = 0, Point_y = 0\<rparr>, direction = DOWN\<rparr>)) \<and>
   Point_y (position (after_calls 3
     \<lparr>height = 3, width = 3,
      state = [[False, False, False], [False, False, False], [False, False, False]],
      position = \<lparr>Point_x = 0, Point_y = 0\<rparr>, direction = DOWN\<rparr>)) < 3"
proof -
  have h: "LangtonsAnt_init [[False, False, False], [False, False, False], [False, False, False]]
       (Some [- 3, 6]) (DirectionTuple DOWN) 0 =
     Inr \<lparr>height = 3, width = 3,
      state = [[False, False, False], [False, False, False], [False, False, False]],
      position = \<lparr>Point_x = 0, Point_y = 0\<rparr>, direction = DOWN\<rparr>"
    by (simp add: eval_defs)
  have r: "after_calls 3
       \<lparr>height = 3, width = 3,
      state = [[False, False, False], [False, False, False], [False, False, False]],
      position = \<lparr>Point_x = 0, Point_y = 0\<rparr>, direction = DOWN\<rparr> =
     \<lparr>height = 3, width = 3,
      state = [[True, False, False], [False, False, False], [True, False, True]],
      position = \<lparr>Point_x = 0, Point_y = 2\<rparr>, direction = RIGHT\<rparr>"
    by (simp add: eval_defs numeral_3_eq_3)
  show ?thesis
    using h r C4_position_in_bounds [OF h, of 3] by simp
qed

text \<open>
  Claim C5: for every validly constructed automaton the direction is one of
  \<^verbatim>\<open>UP\<close> \<open>(0, -1)\<close>, \<^verbatim>\<open>RIGHT\<close> \<open>(1, 0)\<close>, \<^verbatim>\<open>DOWN\<close> \<open>(0, 1)\<close> and \<^verbatim>\<open>LEFT\<close> \<open>(-1, 0)\<close>, after
  construction (\<open>n = 0\<close>), whatever was passed as direction and whatever was drawn, and
  after every number of calls of \<^verbatim>\<open>next\<close>.
\<close>

theorem C5_direction_closed:
  assumes "LangtonsAnt_init g sp arg rnd = Inr a"
  shows "direction (after_calls n a) \<in> {UP, RIGHT, DOWN, LEFT} \<and>
         UP = Direction 0 (- 1) \<and> RIGHT = Direction 1 0 \<and>
         DOWN = Direction 0 1 \<and> LEFT = Direction (- 1) 0"
proof -
  have "ant_inv (after_calls n a)"
    using assms by (intro after_calls_inv init_inv)
  then have "direction (after_calls n a) \<in> set DIRECTION_CHOICES"
    unfolding ant_inv_def by blast
  then show ?thesis
    by (simp add: DIRECTION_CHOICES_def UP_def RIGHT_def DOWN_def LEFT_def)
qed

text \<open>
  Claim C5 on a 2 by 2 grid, constructed with a \<^verbatim>\<open>Direction(2, 3)\<close> that is none of the
  four, so that the draw decides, after five calls.
\<close>

theorem C5_witness:
  "LangtonsAnt_init [[True, False], [False, False]] None (DirectionTuple (Direction 2 3)) 5 =
   Inr \<lparr>height = 2, width = 2, state = [[True, False], [False, False]],
        position = \<lparr>Point_x = 1, Point_y = 1\<rparr>, direction = RIGHT\<rparr> \<and>
   direction (after_calls 5
     \<lparr>height = 2, width = 2, state = [[True, False], [False, False]],
      position = \<lparr>Point_x = 1, Point_y = 1\<rparr>, direction = RIGHT\<rparr>) \<in> {UP, RIGHT, DOWN, LEFT}"
proof -
  have h: "LangtonsAnt_init [[True, False], [False, False]] None
       (DirectionTuple (Direction 2 3)) 5 =
     Inr \<lparr>height = 2, width = 2, state = [[True, False], [False, False]],
          position = \<lparr>Point_x = 1, Point_y = 1\<rparr>, direction = RIGHT\<rparr>"
    by (simp add: eval_defs)
  show ?thesis
    using h C5_direction_closed [OF h, of 5] by blast
qed

text \<open>
  Claim C6: for every validly constructed automaton, the grid read through the property
  \<^verbatim>\<open>state\<close> after any number of calls of \<^verbatim>\<open>next\<close> has as many rows as the grid given to
  the constructor, and each row has the length it had then.
\<close>

theorem C6_shape_fixed:
  assumes "LangtonsAnt_init g sp arg rnd = Inr a"
  shows "length (LangtonsAnt_state (after_calls n a)) = length g \<and>
         map length (LangtonsAnt_state (after_calls n a)) = map length g"
proof -
  have "state a = g"
    using init_fields [OF assms] by simp
  then have "map length (LangtonsAnt_state (after_calls n a)) = map length g"
    by (simp add: LangtonsAnt_state_def after_calls_shape)
  then show ?thesis
    by (blast dest: map_eq_imp_length_eq)
qed

text \<open>
  Claim C6 on a 2 by 2 grid. Each of the four calls returns and flips a cell, three of
  them off cells and one the on cell, so that the grid read afterwards differs from the
  one given in every cell and has the same shape.
\<close>

theorem C6_witness:
  "LangtonsAnt_init [[True, False], [False, False]] (Some [1, 1]) DirectionNone 3 =
   Inr \<lparr>height = 2, width = 2,
      state = [[True, False], [False, False]],
      position = \<lparr>Point_x = 1, Point_y = 1\<rparr>, direction = LEFT\<rparr> \<and>
   LangtonsAnt_state (after_calls 4
     \<lparr>height = 2, width = 2,
      state = [[True, False], [False, False]],
      position = \<lparr>Point_x = 1, Point_y = 1\<rparr>, direction = LEFT\<rparr>) =
   [[False, True], [True, True]] \<and>
   length (LangtonsAnt_state (after_calls 4
     \<lparr>height = 2, width = 2,
      state = [[True, False], [False, False]],
      position = \<lparr>Point_x = 1, Point_y = 1\<rparr>, direction = LEFT\<rparr>)) = 2 \<and>
   map length (LangtonsAnt_state (after_calls 4
     \<lparr>height = 2, width = 2,
      state = [[True, False], [False, False]],
      position = \<lparr>Point_x = 1, Point_y = 1\<rparr>, direction = LEFT\<rparr>)) = [2, 2]"
proof -
  have h: "LangtonsAnt_init [[True, False], [False, False]] (Some [1, 1]) DirectionNone 3 =
     Inr \<lparr>height = 2, width = 2,
      state = [[True, False], [False, False]],
      position = \<lparr>Point_x = 1, Point_y = 1\<rparr>, direction = LEFT\<rparr>"
    by (simp add: eval_defs)
  have r: "LangtonsAnt_state (after_calls 4
       \<lparr>height = 2, width = 2,
      state = [[True, False], [False, False]],
      position = \<lparr>Point_x = 1, Point_y = 1\<rparr>, direction = LEFT\<rparr>) =
     [[False, True], [True, True]]"
    by (simp add: eval_defs numeral_eq_Suc)
  show ?thesis
    using h r C6_shape_fixed [OF h, of 4] by simp
qed

text \<open>
  Claim C7: construction fails with a \<^verbatim>\<open>ValueError\<close> exactly when the grid has no rows,
  or its first row has no columns, or some row's length differs from the first row's, or
  the start position supplied does not have exactly two components; a failed
  construction yields no instance.

  \<^verbatim>\<open>if start_position:\<close> takes an empty list for an omitted argument. The empty start
  position has no two components, yet \<^verbatim>\<open>LangtonsAnt([[False]], [])\<close> is constructed, with
  the ant at the centre.
\<close>

theorem C7_counterexample:
  "length ([] :: int list) \<noteq> 2 \<and>
   LangtonsAnt_init [[False]] (Some []) DirectionNone 0 =
   Inr \<lparr>height = 1, width = 1, state = [[False]],
        position = \<lparr>Point_x = 0, Point_y = 0\<rparr>, direction = UP\<rparr>"
  by (simp add: eval_defs)

text \<open>
  Claim C7 as the code has it: construction fails exactly when the grid has no rows, or
  its first row has no columns, or some row's length differs from the first row's, or the
  start position supplied is a non-empty list that does not have exactly two components.
  Every failure is a \<^verbatim>\<open>ValueError\<close>, and a failed construction returns the error alone, no
  instance. The constructor assigns to nothing but the new object's fields, so its result
  is a function of its arguments and leaves them as they were.
\<close>

theorem C7_construction_fails:
  "isl (LangtonsAnt_init g sp arg rnd) =
     (g = [] \<or> hd g = [] \<or> list_ex (\<lambda>row. length (hd g) \<noteq> length row) g \<or>
      (case sp of None \<Rightarrow> False | Some xs \<Rightarrow> xs \<noteq> [] \<and> length xs \<noteq> 2)) \<and>
   isl (LangtonsAnt_init g sp arg rnd) = (LangtonsAnt_init g sp arg rnd = Inl ValueError)"
proof
  show "isl (LangtonsAnt_init g sp arg rnd) =
     (g = [] \<or> hd g = [] \<or> list_ex (\<lambda>row. length (hd g) \<noteq> length row) g \<or>
      (case sp of None \<Rightarrow> False | Some xs \<Rightarrow> xs \<noteq> [] \<and> length xs \<noteq> 2))"
    by (simp only: init_isl initial_position_isl)
  show "isl (LangtonsAnt_init g sp arg rnd) = (LangtonsAnt_init g sp arg rnd = Inl ValueError)"
    by (cases "LangtonsAnt_init g sp arg rnd") (auto dest: init_error)
qed

text \<open>
  Claim C7 at the rows of differing lengths \<^verbatim>\<open>[[True], [True, False]]\<close>, at the empty
  grid, at a start position of three components, and at a valid construction.
\<close>

theorem C7_witness:
  "isl (LangtonsAnt_init [[True], [True, False]] None DirectionNone 0) \<and>
   LangtonsAnt_init [[True], [True, False]] None DirectionNone 0 = Inl ValueError \<and>
   isl (LangtonsAnt_init [] None DirectionNone 0) \<and>
   isl (LangtonsAnt_init [[True]] (Some [1, 2, 3]) DirectionNone 0) \<and>
   \<not> isl (LangtonsAnt_init [[True]] (Some [5, - 3]) DirectionNone 0)"
proof -
  have 1: "isl (LangtonsAnt_init [[True], [True, False]] None DirectionNone 0)"
    using C7_construction_fails [of "[[True], [True, False]]" None DirectionNone 0] by simp
  then have 2: "LangtonsAnt_init [[True], [True, False]] None DirectionNone 0 = Inl ValueError"
    using C7_construction_fails [of "[[True], [True, False]]" None DirectionNone 0] by blast
  have 3: "isl (LangtonsAnt_init [] None DirectionNone 0)"
    using C7_construction_fails [of "[]" None DirectionNone 0] by simp
  have 4: "isl (LangtonsAnt_init [[True]] (Some [1, 2, 3]) DirectionNone 0)"
    using C7_construction_fails [of "[[True]]" "Some [1, 2, 3]" DirectionNone 0] by simp
  have 5: "\<not> isl (LangtonsAnt_init [[True]] (Some [5, - 3]) DirectionNone 0)"
    using C7_construction_fails [of "[[True]]" "Some [5, - 3]" DirectionNone 0] by simp
  show ?thesis
    using 1 2 3 4 5 by blast
qed

text \<open>
  Two automata constructed alike take the same run when the direction passed is one the
  constructor keeps (\<^verbatim>\<open>direction in DIRECTION_CHOICES\<close>), whatever the generator would
  have drawn for either.
\<close>

lemma run_fixed_direction:
  assumes "in_DIRECTION_CHOICES arg"
    and "LangtonsAnt_init g sp arg rnd1 = Inr a"
    and "LangtonsAnt_init g sp arg rnd2 = Inr b"
  shows "after_calls n a = after_calls n b"
proof -
  have "a = b"
    using assms init_fixed_direction [of arg g sp rnd1 rnd2] by simp
  then show ?thesis
    by simp
qed

text \<open>
  Claim C8: two automata constructed from identical grids, identical start positions and
  identical, explicitly given start directions end, after \<open>n\<close> calls of \<^verbatim>\<open>next\<close> each,
  with identical grids, positions and directions.

  The constructor documents the direction as a list of two integers \<^verbatim>\<open>[X, Y]\<close>. A list
  is equal to no tuple, so \<^verbatim>\<open>[0, -1] in DIRECTION_CHOICES\<close> is false and the direction
  is drawn at random although it was given. Two automata on the 3 by 3 all-off grid, both
  constructed at \<open>[0, 0]\<close> with the direction \<^verbatim>\<open>[0, -1]\<close>, head \<^verbatim>\<open>UP\<close> when the draw is
  \<open>0\<close> and \<^verbatim>\<open>DOWN\<close> when it is \<open>2\<close>; after one call each, the first is at \<open>(1, 0)\<close>
  heading \<^verbatim>\<open>RIGHT\<close> and the second at \<open>(2, 0)\<close> heading \<^verbatim>\<open>LEFT\<close>. Only a direction passed
  as a \<^verbatim>\<open>Direction\<close> is kept (lemma \<open>run_fixed_direction\<close>).
\<close>

theorem C8_list_direction_drawn:
  "LangtonsAnt_init [[False, False, False], [False, False, False], [False, False, False]]
     (Some [0, 0]) (DirectionList [0, - 1]) 0 =
   Inr \<lparr>height = 3, width = 3,
      state = [[False, False, False], [False, False, False], [False, False, False]],
      position = \<lparr>Point_x = 0, Point_y = 0\<rparr>, direction = UP\<rparr> \<and>
   LangtonsAnt_init [[False, False, False], [False, False, False], [False, False, False]]
     (Some [0, 0]) (DirectionList [0, - 1]) 2 =
   Inr \<lparr>height = 3, width = 3,
      state = [[False, False, False], [False, False, False], [False, False, False]],
      position = \<lparr>Point_x = 0, Point_y = 0\<rparr>, direction = DOWN\<rparr> \<and>
   after_calls 1
     \<lparr>height = 3, width = 3,
      state = [[False, False, False], [False, False, False], [False, False, False]],
      position = \<lparr>Point_x = 0, Point_y = 0\<rparr>, direction = UP\<rparr> =
   \<lparr>height = 3, width = 3,
      state = [[True, False, False], [False, False, False], [False, False, False]],
      position = \<lparr>Point_x = 1, Point_y = 0\<rparr>, direction = RIGHT\<rparr> \<and>
   after_calls 1
     \<lparr>height = 3, width = 3,
      state = [[False, False, False], [False, False, False], [False, False, False]],
      position = \<lparr>Point_x = 0, Point_y = 0\<rparr>, direction = DOWN\<rparr> =
   \<lparr>height = 3, width = 3,
      state = [[True, False, False], [False, False, False], [False, False, False]],
      position = \<lparr>Point_x = 2, Point_y = 0\<rparr>, direction = LEFT\<rparr>"
  by (simp add: eval_defs)

text \<open>
  Claim C9: one call of \<^verbatim>\<open>next\<close> changes exactly one cell of the grid, the one under
  the ant, which is negated, and leaves every other cell as it was; besides the grid only
  the position and the direction change.

  The code does so whenever the ant's position indexes a cell of the grid (lemma
  \<open>next_frame\<close>), as it always does on a square grid. \<^verbatim>\<open>LangtonsAnt([[False], [False]])\<close>,
  two rows of one cell, is constructed without error with the ant at the centre
  \<open>(0, 1)\<close>; its \<^verbatim>\<open>next\<close> raises \<^verbatim>\<open>IndexError\<close> at the read of item \<open>1\<close> of row \<open>0\<close>, and
  the grid it leaves has no changed cell.
\<close>

theorem C9_non_square_no_cell_changed:
  "LangtonsAnt_init [[False], [False]] None arg rnd =
   Inr \<lparr>height = 2, width = 1, state = [[False], [False]],
        position = \<lparr>Point_x = 0, Point_y = 1\<rparr>, direction = initial_direction arg rnd\<rparr> \<and>
   fst (LangtonsAnt_next
     \<lparr>height = 2, width = 1, state = [[False], [False]],
      position = \<lparr>Point_x = 0, Point_y = 1\<rparr>, direction = initial_direction arg rnd\<rparr>) =
   Inl IndexError \<and>
   LangtonsAnt_state (snd (LangtonsAnt_next
     \<lparr>height = 2, width = 1, state = [[False], [False]],
      position = \<lparr>Point_x = 0, Point_y = 1\<rparr>, direction = initial_direction arg rnd\<rparr>)) =
   [[False], [False]]"
  by (simp add: LangtonsAnt_init_def initial_position_def LangtonsAnt_next_def cell_at_def
      list_getitem_def LangtonsAnt_state_def Let_def)

text \<open>
  Claim C10: the two turn maps of \<^verbatim>\<open>next\<close>, \<open>d \<mapsto> (d.y, -d.x)\<close> and \<open>d \<mapsto> (-d.y, d.x)\<close>,
  are bijections of the set of the four directions onto itself, each the inverse of the
  other, and four applications of either give the direction back. The last two hold
  for every direction vector, not only the four.
\<close>

theorem C10_turns:
  "bij_betw turn_on_cell (set DIRECTION_CHOICES) (set DIRECTION_CHOICES) \<and>
   bij_betw turn_off_cell (set DIRECTION_CHOICES) (set DIRECTION_CHOICES) \<and>
   (\<forall>d. turn_on_cell (turn_off_cell d) = d \<and> turn_off_cell (turn_on_cell d) = d) \<and>
   (\<forall>d. (turn_on_cell ^^ 4) d = d \<and> (turn_off_cell ^^ 4) d = d)"
proof -
  have "inj turn_on_cell"
    by (rule inj_on_inverseI [where g = turn_off_cell]) simp
  then have "inj_on turn_on_cell (set DIRECTION_CHOICES)"
    by (rule inj_on_subset) simp
  then have 1: "bij_betw turn_on_cell (set DIRECTION_CHOICES) (set DIRECTION_CHOICES)"
    by (simp add: bij_betw_def turn_on_choices)
  have "inj turn_off_cell"
    by (rule inj_on_inverseI [where g = turn_on_cell]) simp
  then have "inj_on turn_off_cell (set DIRECTION_CHOICES)"
    by (rule inj_on_subset) simp
  then have 2: "bij_betw turn_off_cell (set DIRECTION_CHOICES) (set DIRECTION_CHOICES)"
    by (simp add: bij_betw_def turn_off_choices)
  have 3: "(turn_on_cell ^^ 4) d = d" for d
    by (cases d) (simp add: numeral_eq_Suc turn_on_cell_def)
  have 4: "(turn_off_cell ^^ 4) d = d" for d
    by (cases d) (simp add: numeral_eq_Suc turn_off_cell_def)
  show ?thesis
    using 1 2 3 4 by simp
qed

text \<open>
  Claim C10 at \<^verbatim>\<open>UP\<close> and \<^verbatim>\<open>LEFT\<close>.
\<close>

theorem C10_witness:
  "turn_on_cell (turn_off_cell UP) = UP \<and> turn_off_cell (turn_on_cell UP) = UP \<and>
   (turn_on_cell ^^ 4) LEFT = LEFT \<and> (turn_off_cell ^^ 4) LEFT = LEFT"
  using C10_turns by blast

end
